theory Spec2Isabelle
  imports Complex_Main
begin

section \<open>JavaScript strings and the array helpers the analyzers use\<close>

text \<open>
  A JavaScript string is a sequence of code units; here it is a \<open>string\<close>, one
  \<open>char\<close> per code unit. The functions below use nothing of a code unit but equality,
  so \<open>length\<close> is the source's \<open>code.length\<close>.
\<close>

definition newline :: char where
  \<open>newline = CHR 0x0A\<close>

text \<open>\<open>text.startsWith(search)\<close>, the test \<open>includes\<close> makes at each position.\<close>

fun startsWith :: \<open>string \<Rightarrow> string \<Rightarrow> bool\<close> where
  \<open>startsWith text [] = True\<close>
| \<open>startsWith [] (s # search) = False\<close>
| \<open>startsWith (c # text) (s # search) = (c = s \<and> startsWith text search)\<close>

text \<open>\<open>text.includes(search)\<close>: the search string occurs at some position of the text.\<close>

fun str_includes :: \<open>string \<Rightarrow> string \<Rightarrow> bool\<close> where
  \<open>str_includes [] search = startsWith [] search\<close>
| \<open>str_includes (c # text) search = (startsWith (c # text) search \<or> str_includes text search)\<close>

text \<open>
  \<open>text.split('\n')\<close>: the pieces between the newlines; the empty string gives one
  empty piece, and the result is never empty.
\<close>

fun split_lines :: \<open>string \<Rightarrow> string list\<close> where
  \<open>split_lines [] = [[]]\<close>
| \<open>split_lines (c # text) =
     (if c = newline then [] # split_lines text
      else (case split_lines text of
              [] \<Rightarrow> [[c]]
            | l # ls \<Rightarrow> (c # l) # ls))\<close>

text \<open>
  \<open>array.findIndex(predicate)\<close>: the loop over the indices from \<open>k\<close> on, which
  returns the first index whose element satisfies the predicate and \<open>-1\<close> when none does.
\<close>

fun findIndex_from :: \<open>int \<Rightarrow> ('a \<Rightarrow> bool) \<Rightarrow> 'a list \<Rightarrow> int\<close> where
  \<open>findIndex_from k p [] = - 1\<close>
| \<open>findIndex_from k p (x # xs) = (if p x then k else findIndex_from (k + 1) p xs)\<close>

definition findIndex :: \<open>('a \<Rightarrow> bool) \<Rightarrow> 'a list \<Rightarrow> int\<close> where
  \<open>findIndex p xs = findIndex_from 0 p xs\<close>

text \<open>The decimal digits of a number, as a template literal prints \<open>issues.length\<close>.\<close>

fun decimal :: \<open>nat \<Rightarrow> string\<close> where
  \<open>decimal n =
     (if n < 10 then [char_of (48 + n)]
      else decimal (n div 10) @ [char_of (48 + n mod 10)])\<close>

declare decimal.simps [simp del]

section \<open>The result schema (\<open>AnalysisResult\<close> of \<open>src/frontend/src/api/analyze.ts\<close>)\<close>

datatype severity = error | warning | info

datatype complexity_level = Low | Medium | High

text \<open>
  The rating labels. The interface gives \<open>security\<close> all five; \<open>maintainability\<close> and
  \<open>performance\<close> are typed without \<open>Critical\<close>.
\<close>

datatype rating = Critical | Poor | Fair | Good | Excellent

record issue =
  line :: int
  severity :: severity
  message :: string
  type :: string
  suggestion :: \<open>string option\<close>

record metrics =
  complexity :: complexity_level
  maintainability :: rating
  security :: rating
  performance :: rating

record AnalysisResult =
  score :: int
  issues :: \<open>issue list\<close>
  metrics :: metrics
  summary :: string
  analysisTime :: rat

section \<open>The mock analyzer (\<open>analyzeCode\<close>, the Vite variant of \<open>analyze.ts\<close>)\<close>

text \<open>
  The function keeps two mutable locals, \<open>issues\<close> and \<open>score\<close>, and runs three
  \<open>if\<close> statements over them. Each statement is a step on the pair of the two.
\<close>

type_synonym analysis_state = \<open>issue list \<times> int\<close>

definition sql_rule :: \<open>string \<Rightarrow> analysis_state \<Rightarrow> analysis_state\<close> where
  \<open>sql_rule code st =
     (case st of (issues', score') \<Rightarrow>
        if str_includes code ''SELECT'' \<and> str_includes code ''+'' then
          (issues' @
             [\<lparr>line = findIndex (\<lambda>line. str_includes line ''SELECT'' \<and> str_includes line ''+'')
                       (split_lines code) + 1,
               severity = error,
               message = ''SQL injection vulnerability detected'',
               type = ''Security'',
               suggestion = Some ''Use parameterized queries or prepared statements''\<rparr>],
           score' - 25)
        else (issues', score'))\<close>

definition eval_rule :: \<open>string \<Rightarrow> analysis_state \<Rightarrow> analysis_state\<close> where
  \<open>eval_rule code st =
     (case st of (issues', score') \<Rightarrow>
        if str_includes code ''eval('' then
          (issues' @
             [\<lparr>line = findIndex (\<lambda>line. str_includes line ''eval'') (split_lines code) + 1,
               severity = error,
               message = ''Use of eval() function is dangerous'',
               type = ''Security'',
               suggestion = Some ''Avoid eval() and use safer alternatives''\<rparr>],
           score' - 20)
        else (issues', score'))\<close>

definition console_rule :: \<open>string \<Rightarrow> analysis_state \<Rightarrow> analysis_state\<close> where
  \<open>console_rule code st =
     (case st of (issues', score') \<Rightarrow>
        if str_includes code ''console.log'' then
          (issues' @
             [\<lparr>line = findIndex (\<lambda>line. str_includes line ''console.log'') (split_lines code) + 1,
               severity = warning,
               message = ''Console.log statements should be removed in production'',
               type = ''Best Practice'',
               suggestion = Some ''Remove or replace with proper logging''\<rparr>],
           score' - 5)
        else (issues', score'))\<close>

text \<open>The two locals after the three statements, from \<open>issues = []\<close> and \<open>score = 85\<close>.\<close>

definition run_rules :: \<open>string \<Rightarrow> analysis_state\<close> where
  \<open>run_rules code = console_rule code (eval_rule code (sql_rule code ([], 85)))\<close>

text \<open>
  The returned object. The \<open>language\<close> argument is not read. The promise always
  resolves; the delay of 1500 ms before the computation changes no value.
\<close>

definition analyzeCode :: \<open>string \<Rightarrow> string \<Rightarrow> AnalysisResult\<close> where
  \<open>analyzeCode code language =
     (case run_rules code of (issues', score') \<Rightarrow>
        \<lparr>score = max 0 score',
         issues = issues',
         metrics =
           \<lparr>complexity =
              (if length code > 500 then High else if length code > 200 then Medium else Low),
            maintainability = (if score' > 70 then Good else if score' > 50 then Fair else Poor),
            security =
              (if length (filter (\<lambda>i. type i = ''Security'') issues') > 0 then Poor else Good),
            performance = Good\<rparr>,
         summary =
           ''Analysis complete. Found '' @ decimal (length issues') @
           '' issues requiring attention.'',
         analysisTime = 3 / 2\<rparr>)\<close>

section \<open>JSON values and the property reads of the route handler\<close>

text \<open>
  A value as \<open>JSON.parse\<close> returns it. Numbers are IEEE doubles in the source; their
  representation is left open as the type \<open>'n\<close>. An object is the list of its own
  properties, read with \<open>map_of\<close>. The value \<open>undefined\<close> is \<open>None\<close> of
  \<open>'n json option\<close>.
\<close>

datatype 'n json =
    JNull
  | JBool bool
  | JNum 'n
  | JStr string
  | JArr \<open>'n json list\<close>
  | JObj \<open>(string \<times> 'n json) list\<close>

text \<open>What the \<open>try\<close> block can throw.\<close>

datatype exn = SyntaxError | TypeError | FetchRejected

text \<open>
  \<open>v.name\<close> on a value that is neither \<open>null\<close> nor \<open>undefined\<close>, for the names the
  handler reads (\<open>code\<close>, \<open>language\<close>, \<open>candidates\<close>, \<open>content\<close>, \<open>parts\<close>,
  \<open>text\<close>): none of them is a property of a built-in prototype, so only an object
  can have one.
\<close>

fun get_prop :: \<open>'n json \<Rightarrow> string \<Rightarrow> 'n json option\<close> where
  \<open>get_prop (JObj kvs) name = map_of kvs name\<close>
| \<open>get_prop v name = None\<close>

text \<open>
  \<open>v[0]\<close> on a value that is neither \<open>null\<close> nor \<open>undefined\<close>: the first element of
  an array, the first code unit of a string, the property \<open>"0"\<close> of an object.
\<close>

fun get_index0 :: \<open>'n json \<Rightarrow> 'n json option\<close> where
  \<open>get_index0 (JArr xs) = (case xs of [] \<Rightarrow> None | x # rest \<Rightarrow> Some x)\<close>
| \<open>get_index0 (JStr s) = (case s of [] \<Rightarrow> None | c # rest \<Rightarrow> Some (JStr [c]))\<close>
| \<open>get_index0 (JObj kvs) = map_of kvs ''0''\<close>
| \<open>get_index0 v = None\<close>

text \<open>
  One link \<open>x?.p\<close> of an optional chain: \<open>undefined\<close> when \<open>x\<close> is \<open>undefined\<close> or
  \<open>null\<close>, the read \<open>f\<close> of \<open>x\<close> otherwise.
\<close>

definition optional :: \<open>'n json option \<Rightarrow> ('n json \<Rightarrow> 'n json option) \<Rightarrow> 'n json option\<close> where
  \<open>optional x f = (case x of None \<Rightarrow> None | Some JNull \<Rightarrow> None | Some v \<Rightarrow> f v)\<close>

section \<open>What the handler takes from its platform\<close>

text \<open>
  The handler of \<open>src/frontend/dist/api/analyze/route.ts\<close> calls the JavaScript runtime
  and the outside world. Those are parameters of the model:
  \<^item> \<open>JSON_parse\<close> is \<open>JSON.parse\<close>, which \<open>request.json()\<close> and \<open>response.json()\<close>
    apply to a body too; \<open>None\<close> is the \<open>SyntaxError\<close> it throws;
  \<^item> \<open>Number_truthy\<close> tells whether a number is truthy;
  \<^item> \<open>ToString\<close> is the conversion a template literal applies to a value that is
    not a string; \<open>None\<close> is the \<open>TypeError\<close> it can throw;
  \<^item> \<open>GEMINI_API_KEY\<close> is \<open>process.env.GEMINI_API_KEY\<close>;
  \<^item> \<open>fetch\<close> is the external generative-text endpoint, given the URL and the prompt
    (the rest of the request is constant); \<open>None\<close> is a rejected promise.

  What the handler writes with \<open>console.error\<close> is not part of the model.
\<close>

record fetch_response =
  ok :: bool
  response_body :: string

record 'n platform =
  JSON_parse :: \<open>string \<Rightarrow> 'n json option\<close>
  Number_truthy :: \<open>'n \<Rightarrow> bool\<close>
  ToString :: \<open>'n json \<Rightarrow> string option\<close>
  GEMINI_API_KEY :: \<open>string option\<close>
  fetch :: \<open>string \<Rightarrow> string \<Rightarrow> fetch_response option\<close>

record NextRequest =
  request_body :: string

record 'n NextResponse =
  status :: nat
  json_body :: \<open>'n json\<close>

text \<open>
  \<open>NextResponse.json(body, { status })\<close>; the status is 200 when none is given. The
  field \<open>json_body\<close> is the value the handler hands to \<open>NextResponse.json\<close>. The body
  on the wire is what \<open>JSON.stringify\<close> writes for that value, which is not part of the
  model: it reads back as the same value except where the value holds a number that
  JSON cannot write (a non-finite number, written as \<open>null\<close>).
\<close>

definition NextResponse_json :: \<open>'n json \<Rightarrow> nat \<Rightarrow> 'n NextResponse\<close> where
  \<open>NextResponse_json b st = \<lparr>status = st, json_body = b\<rparr>\<close>

definition error_response :: \<open>string \<Rightarrow> nat \<Rightarrow> 'n NextResponse\<close> where
  \<open>error_response msg st = NextResponse_json (JObj [(''error'', JStr msg)]) st\<close>

text \<open>The truth value of a value, as \<open>!code\<close> and \<open>language || 'javascript'\<close> read it.\<close>

fun truthy :: \<open>'n platform \<Rightarrow> 'n json option \<Rightarrow> bool\<close> where
  \<open>truthy P None = False\<close>
| \<open>truthy P (Some JNull) = False\<close>
| \<open>truthy P (Some (JBool b)) = b\<close>
| \<open>truthy P (Some (JNum n)) = Number_truthy P n\<close>
| \<open>truthy P (Some (JStr s)) = (s \<noteq> [])\<close>
| \<open>truthy P (Some (JArr xs)) = True\<close>
| \<open>truthy P (Some (JObj kvs)) = True\<close>

text \<open>
  A value inside a template literal: a string is itself, \<open>undefined\<close> prints as
  \<open>undefined\<close>, any other value goes through \<open>ToString\<close>.
\<close>

definition interpolate :: \<open>'n platform \<Rightarrow> 'n json option \<Rightarrow> string option\<close> where
  \<open>interpolate P x =
     (case x of
        None \<Rightarrow> Some ''undefined''
      | Some (JStr s) \<Rightarrow> Some s
      | Some v \<Rightarrow> ToString P v)\<close>

text \<open>\<open>x || d\<close>: \<open>x\<close> when it is truthy, \<open>d\<close> otherwise.\<close>

definition or_else :: \<open>'n platform \<Rightarrow> 'n json option \<Rightarrow> 'n json option \<Rightarrow> 'n json option\<close> where
  \<open>or_else P x d = (if truthy P x then x else d)\<close>

section \<open>The regular expression \<open>/\{[\s\S]*\}/\<close>\<close>

text \<open>
  \<open>[\s\S]*\}\<close> against a text: the star takes a code unit and tries the rest first;
  when that fails, it stops and the closing brace has to be the code unit at hand.
\<close>

fun greedy_to_brace :: \<open>string \<Rightarrow> string option\<close> where
  \<open>greedy_to_brace [] = None\<close>
| \<open>greedy_to_brace (c # cs) =
     (case greedy_to_brace cs of
        Some m \<Rightarrow> Some (c # m)
      | None \<Rightarrow> if c = CHR ''}'' then Some [c] else None)\<close>

text \<open>The whole pattern at the start of a text.\<close>

fun match_here :: \<open>string \<Rightarrow> string option\<close> where
  \<open>match_here [] = None\<close>
| \<open>match_here (c # cs) =
     (if c = CHR ''{'' then map_option (\<lambda>m. c # m) (greedy_to_brace cs) else None)\<close>

text \<open>
  \<open>text.match(/\{[\s\S]*\}/)\<close>: the match at the leftmost position that has one, as
  \<open>jsonMatch[0]\<close>; \<open>None\<close> is the \<open>null\<close> of no match.
\<close>

fun match_json :: \<open>string \<Rightarrow> string option\<close> where
  \<open>match_json [] = None\<close>
| \<open>match_json (c # cs) =
     (case match_here (c # cs) of
        Some m \<Rightarrow> Some m
      | None \<Rightarrow> match_json cs)\<close>

section \<open>The route handler \<open>POST\<close>\<close>

definition join_lines :: \<open>string list \<Rightarrow> string\<close> where
  \<open>join_lines ls = (case ls of [] \<Rightarrow> [] | l # rest \<Rightarrow> l @ concat (map (\<lambda>x. newline # x) rest))\<close>

text \<open>The template literal \<open>prompt\<close>, with \<open>language || 'javascript'\<close> and \<open>code\<close> as strings.\<close>

definition prompt_text :: \<open>string \<Rightarrow> string \<Rightarrow> string\<close> where
  \<open>prompt_text lang code = join_lines
     [''You are a senior code security and performance auditor. Analyze the following '' @ lang @
        '' code and provide a comprehensive security and performance audit.'',
      [],
      ''Code to analyze:'',
      ''```'' @ lang,
      code,
      ''```'',
      [],
      ''Please respond with a JSON object containing:'',
      ''1. score: Overall security score (0-100)'',
      ''2. issues: Array of issues with line number, severity (error/warning/info), message, type, and suggestion'',
      ''3. metrics: Object with complexity, maintainability, security, and performance ratings'',
      ''4. summary: Brief analysis summary'',
      ''5. analysisTime: Estimated analysis time in seconds'',
      [],
      ''Example format:'',
      ''{'',
      ''  "score": 75,'',
      ''  "issues": ['',
      ''    {'',
      ''      "line": 2,'',
      ''      "severity": "error",'',
      ''      "message": "SQL injection vulnerability",'',
      ''      "type": "Security",'',
      ''      "suggestion": "Use parameterized queries instead"'',
      ''    }'',
      ''  ],'',
      ''  "metrics": {'',
      ''    "complexity": "Medium",'',
      ''    "maintainability": "Good",'',
      ''    "security": "Fair",'',
      ''    "performance": "Good"'',
      ''  },'',
      ''  "summary": "Code has potential security vulnerabilities that should be addressed.",'',
      ''  "analysisTime": 1.5'',
      ''}'']\<close>

definition gemini_url :: \<open>string \<Rightarrow> string\<close> where
  \<open>gemini_url geminiApiKey =
     ''https://generativelanguage.googleapis.com/v1beta/models/gemini-2.0-flash:generateContent?key=''
       @ geminiApiKey\<close>

text \<open>
  Lines 7 to 52 of the handler, up to the call of \<open>fetch\<close>: an exception, a response
  returned early, or the URL and the prompt the fetch is made with.
\<close>

definition before_fetch ::
  \<open>'n platform \<Rightarrow> NextRequest \<Rightarrow> exn + ('n NextResponse + string \<times> string)\<close> where
  \<open>before_fetch P request =
     (case JSON_parse P (request_body request) of
        None \<Rightarrow> Inl SyntaxError
      | Some JNull \<Rightarrow> Inl TypeError
      | Some v \<Rightarrow>
          (let code = get_prop v ''code''; language = get_prop v ''language'' in
           if \<not> truthy P code then Inr (Inl (error_response ''Code is required'' 400))
           else
             (case GEMINI_API_KEY P of
                None \<Rightarrow> Inr (Inl (error_response ''Gemini API key not configured'' 500))
              | Some geminiApiKey \<Rightarrow>
                  if geminiApiKey = [] then
                    Inr (Inl (error_response ''Gemini API key not configured'' 500))
                  else
                    (case interpolate P (or_else P language (Some (JStr ''javascript''))) of
                       None \<Rightarrow> Inl TypeError
                     | Some lang \<Rightarrow>
                         (case interpolate P code of
                            None \<Rightarrow> Inl TypeError
                          | Some code_text \<Rightarrow>
                              Inr (Inr (gemini_url geminiApiKey, prompt_text lang code_text)))))))\<close>

text \<open>
  Line 78: \<open>data.candidates?.[0]?.content?.parts?.[0]?.text\<close>. The first read is not
  optional and throws on \<open>null\<close>.
\<close>

definition candidate_text :: \<open>'n json \<Rightarrow> exn + 'n json option\<close> where
  \<open>candidate_text data =
     (case data of
        JNull \<Rightarrow> Inl TypeError
      | _ \<Rightarrow>
          Inr (optional
                 (optional
                    (optional
                       (optional
                          (optional (get_prop data ''candidates'') get_index0)
                          (\<lambda>v. get_prop v ''content''))
                       (\<lambda>v. get_prop v ''parts''))
                    get_index0)
                 (\<lambda>v. get_prop v ''text'')))\<close>

text \<open>
  Lines 84 to 92, on a truthy \<open>text\<close>: only a string has a \<open>match\<close> method; the span
  the pattern matches is parsed once and the value handed to \<open>NextResponse.json\<close> as it
  is, with no check of its fields.
\<close>

definition parse_analysis :: \<open>'n platform \<Rightarrow> 'n json option \<Rightarrow> exn + 'n NextResponse\<close> where
  \<open>parse_analysis P text =
     (case text of
        Some (JStr t) \<Rightarrow>
          (case match_json t of
             None \<Rightarrow> Inr (error_response ''Invalid analysis format'' 500)
           | Some jsonMatch \<Rightarrow>
               (case JSON_parse P jsonMatch of
                  None \<Rightarrow> Inl SyntaxError
                | Some analysisResult \<Rightarrow> Inr (NextResponse_json analysisResult 200)))
      | _ \<Rightarrow> Inl TypeError)\<close>

text \<open>
  Lines 72 to 82, on the response of the fetch: an exception, a response returned
  early, or the truthy \<open>text\<close> of the reply.
\<close>

definition read_reply ::
  \<open>'n platform \<Rightarrow> fetch_response \<Rightarrow> exn + ('n NextResponse + 'n json option)\<close> where
  \<open>read_reply P response =
     (if \<not> ok response then Inr (Inl (error_response ''Analysis service unavailable'' 500))
      else
        (case JSON_parse P (response_body response) of
           None \<Rightarrow> Inl SyntaxError
         | Some data \<Rightarrow>
             (case candidate_text data of
                Inl e \<Rightarrow> Inl e
              | Inr text \<Rightarrow>
                  if \<not> truthy P text then Inr (Inl (error_response ''No analysis generated'' 500))
                  else Inr (Inr text))))\<close>

text \<open>Lines 72 to 92.\<close>

definition after_fetch :: \<open>'n platform \<Rightarrow> fetch_response \<Rightarrow> exn + 'n NextResponse\<close> where
  \<open>after_fetch P response =
     (case read_reply P response of
        Inl e \<Rightarrow> Inl e
      | Inr (Inl early) \<Rightarrow> Inr early
      | Inr (Inr text) \<Rightarrow> parse_analysis P text)\<close>

text \<open>
  A run of the handler: the response it returns and the calls of \<open>fetch\<close> it made, each
  with its URL and prompt.
\<close>

record 'n run =
  returned :: \<open>'n NextResponse\<close>
  fetch_calls :: \<open>(string \<times> string) list\<close>

text \<open>The \<open>try\<close> block: what it returns or throws, and the calls of \<open>fetch\<close>.\<close>

definition try_block ::
  \<open>'n platform \<Rightarrow> NextRequest \<Rightarrow> (exn + 'n NextResponse) \<times> (string \<times> string) list\<close> where
  \<open>try_block P request =
     (case before_fetch P request of
        Inl e \<Rightarrow> (Inl e, [])
      | Inr (Inl early) \<Rightarrow> (Inr early, [])
      | Inr (Inr (url, prompt)) \<Rightarrow>
          (case fetch P url prompt of
             None \<Rightarrow> (Inl FetchRejected, [(url, prompt)])
           | Some response \<Rightarrow> (after_fetch P response, [(url, prompt)])))\<close>

text \<open>The handler: the \<open>catch\<close> turns every exception into one response.\<close>

definition POST :: \<open>'n platform \<Rightarrow> NextRequest \<Rightarrow> 'n run\<close> where
  \<open>POST P request =
     (case try_block P request of
        (Inl e, calls) \<Rightarrow>
          \<lparr>returned = error_response ''Internal server error'' 500, fetch_calls = calls\<rparr>
      | (Inr r, calls) \<Rightarrow> \<lparr>returned = r, fetch_calls = calls\<rparr>)\<close>

section \<open>Concrete inputs\<close>

text \<open>The request of the end-to-end scenario, and a text that triggers all three rules.\<close>

definition sql_example :: string where
  \<open>sql_example = ''const query = "SELECT * FROM users WHERE id = " + userId;''\<close>

definition all_rules_example :: string where
  \<open>all_rules_example = ''console.log(eval("SELECT " + x));''\<close>

definition clean_example :: string where
  \<open>clean_example = ''const total = a + b;''\<close>

text \<open>
  Two lines: the first has \<open>eval\<close> inside the name \<open>evaluated\<close> and no call of
  \<open>eval\<close>, the second calls \<open>eval(\<close>.
\<close>

definition eval_example :: string where
  \<open>eval_example = ''const evaluated = compute(x);'' @ [newline] @ ''const r = eval(input);''\<close>

text \<open>
  A platform for running the handler on a concrete request: its parser is the table of
  the texts the run parses, each with the value \<open>JSON.parse\<close> gives it, and rejects
  every other text; the key is configured; every fetch gets the same reply.
\<close>

definition demo_platform ::
  \<open>(string \<times> int json) list \<Rightarrow> fetch_response option \<Rightarrow> int platform\<close> where
  \<open>demo_platform table reply =
     \<lparr>JSON_parse = map_of table,
      Number_truthy = (\<lambda>n. n \<noteq> 0),
      ToString = (\<lambda>v. None),
      GEMINI_API_KEY = Some ''test-key'',
      fetch = (\<lambda>url prompt. reply)\<rparr>\<close>

text \<open>The envelope of the endpoint around a reply text.\<close>

definition gemini_reply :: \<open>string \<Rightarrow> 'n json\<close> where
  \<open>gemini_reply text =
     JObj [(''candidates'',
            JArr [JObj [(''content'', JObj [(''parts'', JArr [JObj [(''text'', JStr text)]])])]])]\<close>

definition gemini_body :: \<open>string \<Rightarrow> string\<close> where
  \<open>gemini_body escaped_text =
     ''{"candidates":[{"content":{"parts":[{"text":"'' @ escaped_text @ ''"}]}}]}''\<close>

text \<open>A request whose code is one space; the endpoint replies with the text \<open>{}\<close>.\<close>

definition blank_code_request :: NextRequest where
  \<open>blank_code_request = \<lparr>request_body = ''{"code":" "}''\<rparr>\<close>

definition blank_code_platform :: \<open>int platform\<close> where
  \<open>blank_code_platform =
     demo_platform
       [(''{"code":" "}'', JObj [(''code'', JStr '' '')]),
        (gemini_body ''{}'', gemini_reply ''{}''),
        (''{}'', JObj [])]
       (Some \<lparr>ok = True, response_body = gemini_body ''{}''\<rparr>)\<close>

text \<open>A request whose code is the empty string.\<close>

definition empty_code_request :: NextRequest where
  \<open>empty_code_request = \<lparr>request_body = ''{"code":""}''\<rparr>\<close>

definition empty_code_platform :: \<open>int platform\<close> where
  \<open>empty_code_platform =
     demo_platform [(''{"code":""}'', JObj [(''code'', JStr [])])] None\<close>

text \<open>A request with code \<open>x\<close>, whose body every platform below parses.\<close>

definition x_request :: NextRequest where
  \<open>x_request = \<lparr>request_body = ''{"code":"x"}''\<rparr>\<close>

text \<open>The endpoint replies with the text \<open>{oops}\<close>, which is not JSON.\<close>

definition oops_platform :: \<open>int platform\<close> where
  \<open>oops_platform =
     demo_platform
       [(''{"code":"x"}'', JObj [(''code'', JStr ''x'')]),
        (gemini_body ''{oops}'', gemini_reply ''{oops}'')]
       (Some \<lparr>ok = True, response_body = gemini_body ''{oops}''\<rparr>)\<close>

text \<open>The endpoint replies with the text \<open>{}\<close>, an object with none of the fields.\<close>

definition no_fields_platform :: \<open>int platform\<close> where
  \<open>no_fields_platform =
     demo_platform
       [(''{"code":"x"}'', JObj [(''code'', JStr ''x'')]),
        (gemini_body ''{}'', gemini_reply ''{}''),
        (''{}'', JObj [])]
       (Some \<lparr>ok = True, response_body = gemini_body ''{}''\<rparr>)\<close>

text \<open>
  The endpoint replies with an object inside prose. In the body of the reply the two
  double quotes of the text are escaped with a backslash.
\<close>

definition audit_text :: string where
  \<open>audit_text = ''Audit: {"score":75} Done.''\<close>

definition audit_text_escaped :: string where
  \<open>audit_text_escaped =
     ''Audit: {'' @ [CHR 0x5C] @ ''"score'' @ [CHR 0x5C] @ ''":75} Done.''\<close>

definition audit_platform :: \<open>int platform\<close> where
  \<open>audit_platform =
     demo_platform
       [(''{"code":"x"}'', JObj [(''code'', JStr ''x'')]),
        (gemini_body audit_text_escaped, gemini_reply audit_text),
        (''{"score":75}'', JObj [(''score'', JNum 75)])]
       (Some \<lparr>ok = True, response_body = gemini_body audit_text_escaped\<rparr>)\<close>

text \<open>A request whose body is cut off, on a platform that is never asked anything else.\<close>

definition broken_request :: NextRequest where
  \<open>broken_request = \<lparr>request_body = ''{"code": "x"''\<rparr>\<close>

definition broken_platform :: \<open>int platform\<close> where
  \<open>broken_platform = demo_platform [] None\<close>

section \<open>Strings and \<open>findIndex\<close>\<close>

lemma startsWith_iff: \<open>startsWith t s \<longleftrightarrow> (\<exists>q. t = s @ q)\<close>
  by (induction t s rule: startsWith.induct) auto

text \<open>\<open>str_includes\<close> is the substring relation.\<close>

lemma str_includes_iff: \<open>str_includes t s \<longleftrightarrow> (\<exists>p q. t = p @ s @ q)\<close>
proof (induction t)
  case Nil
  show ?case by (cases s) simp_all
next
  case (Cons c t)
  have \<open>(\<exists>p q. c # t = p @ s @ q) \<longleftrightarrow> (\<exists>q. c # t = s @ q) \<or> (\<exists>p q. t = p @ s @ q)\<close>
  proof
    assume \<open>\<exists>p q. c # t = p @ s @ q\<close>
    then obtain p q where pq: \<open>c # t = p @ s @ q\<close> by blast
    show \<open>(\<exists>q. c # t = s @ q) \<or> (\<exists>p q. t = p @ s @ q)\<close>
    proof (cases p)
      case Nil
      with pq show ?thesis by auto
    next
      case (Cons a p')
      with pq have \<open>t = p' @ s @ q\<close> by simp
      then show ?thesis by blast
    qed
  next
    assume \<open>(\<exists>q. c # t = s @ q) \<or> (\<exists>p q. t = p @ s @ q)\<close>
    then show \<open>\<exists>p q. c # t = p @ s @ q\<close>
    proof
      assume \<open>\<exists>q. c # t = s @ q\<close>
      then obtain q where \<open>c # t = [] @ s @ q\<close> by auto
      then show ?thesis by blast
    next
      assume \<open>\<exists>p q. t = p @ s @ q\<close>
      then obtain p q where \<open>c # t = (c # p) @ s @ q\<close> by auto
      then show ?thesis by blast
    qed
  qed
  with Cons show ?case by (simp add: startsWith_iff)
qed

lemma findIndex_from_none: \<open>(\<forall>x\<in>set xs. \<not> p x) \<Longrightarrow> findIndex_from k p xs = - 1\<close>
  by (induction xs arbitrary: k) auto

lemma findIndex_from_first:
  \<open>j < length xs \<Longrightarrow> p (xs ! j) \<Longrightarrow> (\<forall>i<j. \<not> p (xs ! i)) \<Longrightarrow>
     findIndex_from k p xs = k + int j\<close>
proof (induction xs arbitrary: k j)
  case Nil
  then show ?case by simp
next
  case (Cons x xs)
  show ?case
  proof (cases j)
    case 0
    with Cons.prems show ?thesis by simp
  next
    case (Suc j')
    with Cons.prems have \<open>\<not> p x\<close> by auto
    moreover have \<open>findIndex_from (k + 1) p xs = (k + 1) + int j'\<close>
      using Cons.prems Suc by (intro Cons.IH) auto
    ultimately show ?thesis using Suc by simp
  qed
qed

text \<open>
  \<open>findIndex(p) + 1\<close> is 0 when no element satisfies \<open>p\<close>, and the 1-based position
  of the first element that does otherwise.
\<close>

lemma findIndex_plus_one_none: \<open>(\<forall>x\<in>set xs. \<not> p x) \<Longrightarrow> findIndex p xs + 1 = 0\<close>
  by (simp add: findIndex_def findIndex_from_none)

lemma findIndex_plus_one_first:
  \<open>j < length xs \<Longrightarrow> p (xs ! j) \<Longrightarrow> (\<forall>i<j. \<not> p (xs ! i)) \<Longrightarrow>
     findIndex p xs + 1 = int j + 1\<close>
  by (simp add: findIndex_def findIndex_from_first)

section \<open>The mock analyzer: the two locals and the fields of the result\<close>

lemma score_analyzeCode: \<open>score (analyzeCode code language) = max 0 (snd (run_rules code))\<close>
  by (simp add: analyzeCode_def split: prod.split)

lemma issues_analyzeCode: \<open>issues (analyzeCode code language) = fst (run_rules code)\<close>
  by (simp add: analyzeCode_def split: prod.split)

lemma metrics_analyzeCode:
  \<open>metrics (analyzeCode code language) =
     \<lparr>complexity =
        (if length code > 500 then High else if length code > 200 then Medium else Low),
      maintainability =
        (if snd (run_rules code) > 70 then Good
         else if snd (run_rules code) > 50 then Fair else Poor),
      security =
        (if length (filter (\<lambda>i. type i = ''Security'') (fst (run_rules code))) > 0
         then Poor else Good),
      performance = Good\<rparr>\<close>
  by (simp add: analyzeCode_def split: prod.split)

lemma snd_run_rules:
  \<open>snd (run_rules code) =
     85 - (if str_includes code ''SELECT'' \<and> str_includes code ''+'' then 25 else 0)
        - (if str_includes code ''eval('' then 20 else 0)
        - (if str_includes code ''console.log'' then 5 else 0)\<close>
  by (simp add: run_rules_def sql_rule_def eval_rule_def console_rule_def)

lemma snd_run_rules_bounds: \<open>35 \<le> snd (run_rules code) \<and> snd (run_rules code) \<le> 85\<close>
  by (simp add: snd_run_rules)

lemma fst_run_rules:
  \<open>fst (run_rules code) =
     (if str_includes code ''SELECT'' \<and> str_includes code ''+'' then
        [\<lparr>line = findIndex (\<lambda>line. str_includes line ''SELECT'' \<and> str_includes line ''+'')
                  (split_lines code) + 1,
          severity = error,
          message = ''SQL injection vulnerability detected'',
          type = ''Security'',
          suggestion = Some ''Use parameterized queries or prepared statements''\<rparr>]
      else []) @
     (if str_includes code ''eval('' then
        [\<lparr>line = findIndex (\<lambda>line. str_includes line ''eval'') (split_lines code) + 1,
          severity = error,
          message = ''Use of eval() function is dangerous'',
          type = ''Security'',
          suggestion = Some ''Avoid eval() and use safer alternatives''\<rparr>]
      else []) @
     (if str_includes code ''console.log'' then
        [\<lparr>line = findIndex (\<lambda>line. str_includes line ''console.log'') (split_lines code) + 1,
          severity = warning,
          message = ''Console.log statements should be removed in production'',
          type = ''Best Practice'',
          suggestion = Some ''Remove or replace with proper logging''\<rparr>]
      else [])\<close>
  by (simp add: run_rules_def sql_rule_def eval_rule_def console_rule_def)

text \<open>
  The line of each issue: the rule for \<open>SELECT\<close> and \<open>+\<close> and the rule for
  \<open>console.log\<close> search the lines for what triggers them; the rule for \<open>eval(\<close>
  searches them for \<open>eval\<close>.
\<close>

lemma issue_lines:
  \<open>map line (issues (analyzeCode code language)) =
     (if str_includes code ''SELECT'' \<and> str_includes code ''+'' then
        [findIndex (\<lambda>l. str_includes l ''SELECT'' \<and> str_includes l ''+'') (split_lines code) + 1]
      else []) @
     (if str_includes code ''eval('' then
        [findIndex (\<lambda>l. str_includes l ''eval'') (split_lines code) + 1]
      else []) @
     (if str_includes code ''console.log'' then
        [findIndex (\<lambda>l. str_includes l ''console.log'') (split_lines code) + 1]
      else [])\<close>
  by (simp add: issues_analyzeCode fst_run_rules)

lemma sql_example_facts:
  \<open>str_includes sql_example ''SELECT''\<close> \<open>str_includes sql_example ''+''\<close>
  \<open>\<not> str_includes sql_example ''eval(''\<close> \<open>\<not> str_includes sql_example ''console.log''\<close>
  \<open>split_lines sql_example = [sql_example]\<close>
  by (simp_all add: sql_example_def newline_def)

lemma eval_example_facts:
  \<open>\<not> (str_includes eval_example ''SELECT'' \<and> str_includes eval_example ''+'')\<close>
  \<open>str_includes eval_example ''eval(''\<close>
  \<open>\<not> str_includes eval_example ''console.log''\<close>
  \<open>split_lines eval_example = [''const evaluated = compute(x);'', ''const r = eval(input);'']\<close>
  by (simp_all add: eval_example_def newline_def)

section \<open>The mock analyzer: the claims\<close>

text \<open>
  C3 says that every emitted issue carries the 1-based index of the first line that
  contains the triggering substring of its rule, \<open>eval(\<close> for the second rule. The second
  rule is triggered by \<open>eval(\<close> but searches the lines for \<open>eval\<close>: on the two lines of
  \<open>eval_example\<close> the issue is attributed to line 1, which does not contain \<open>eval(\<close>,
  while line 2 does.
\<close>

theorem eval_issue_line_mismatch:
  \<open>map line (issues (analyzeCode eval_example ''javascript'')) = [1]
   \<and> map message (issues (analyzeCode eval_example ''javascript'')) =
       [''Use of eval() function is dangerous'']
   \<and> split_lines eval_example = [''const evaluated = compute(x);'', ''const r = eval(input);'']
   \<and> \<not> str_includes (split_lines eval_example ! 0) ''eval(''
   \<and> str_includes (split_lines eval_example ! 1) ''eval(''\<close>
  by (simp add: issues_analyzeCode fst_run_rules eval_example_facts findIndex_def)

text \<open>
  C5: for every text that contains \<open>SELECT\<close> and \<open>+\<close>, \<open>eval(\<close> and \<open>console.log\<close>, the
  result has score \<open>max(0, 85 - 25 - 20 - 5) = 35\<close> and exactly three issues, whose
  severities are error, error, warning in this order.
\<close>

theorem all_rules_score_35:
  assumes \<open>str_includes code ''SELECT''\<close> and \<open>str_includes code ''+''\<close>
    and \<open>str_includes code ''eval(''\<close> and \<open>str_includes code ''console.log''\<close>
  shows \<open>score (analyzeCode code language) = 35
    \<and> score (analyzeCode code language) = max 0 (85 - 25 - 20 - 5)
    \<and> length (issues (analyzeCode code language)) = 3
    \<and> map severity (issues (analyzeCode code language)) = [error, error, warning]\<close>
  using assms by (simp add: score_analyzeCode issues_analyzeCode snd_run_rules fst_run_rules)

text \<open>The theorem of C5 at \<open>all_rules_example\<close>.\<close>

theorem all_rules_score_35_witness:
  \<open>str_includes all_rules_example ''SELECT'' \<and> str_includes all_rules_example ''+''
   \<and> str_includes all_rules_example ''eval('' \<and> str_includes all_rules_example ''console.log''
   \<and> score (analyzeCode all_rules_example ''javascript'') = 35
   \<and> length (issues (analyzeCode all_rules_example ''javascript'')) = 3
   \<and> map severity (issues (analyzeCode all_rules_example ''javascript'')) =
       [error, error, warning]\<close>
proof -
  have h: \<open>str_includes all_rules_example ''SELECT''\<close> \<open>str_includes all_rules_example ''+''\<close>
    \<open>str_includes all_rules_example ''eval(''\<close> \<open>str_includes all_rules_example ''console.log''\<close>
    by (simp_all add: all_rules_example_def)
  from h all_rules_score_35 [OF h, of \<open>''javascript''\<close>] show ?thesis by simp
qed

text \<open>
  C6: for the code \<open>const query = "SELECT * FROM users WHERE id = " + userId;\<close> and
  the language javascript, the result has score 60 and exactly one issue, of severity
  error, at line 1, of type Security, with a message that contains \<open>SQL injection\<close>.
\<close>

theorem sql_example_result:
  \<open>score (analyzeCode sql_example ''javascript'') = 60
   \<and> length (issues (analyzeCode sql_example ''javascript'')) = 1
   \<and> severity (hd (issues (analyzeCode sql_example ''javascript''))) = error
   \<and> line (hd (issues (analyzeCode sql_example ''javascript''))) = 1
   \<and> type (hd (issues (analyzeCode sql_example ''javascript''))) = ''Security''
   \<and> str_includes (message (hd (issues (analyzeCode sql_example ''javascript''))))
        ''SQL injection''\<close>
  by (simp add: score_analyzeCode issues_analyzeCode snd_run_rules fst_run_rules
      sql_example_facts findIndex_def)

text \<open>
  C7: for every text that triggers none of the three rules (it does not contain both
  \<open>SELECT\<close> and \<open>+\<close>, nor \<open>eval(\<close>, nor \<open>console.log\<close>), the result has score 85, no
  issue, security Good and performance Good.
\<close>

theorem clean_code_result:
  assumes \<open>\<not> (str_includes code ''SELECT'' \<and> str_includes code ''+'')\<close>
    and \<open>\<not> str_includes code ''eval(''\<close> and \<open>\<not> str_includes code ''console.log''\<close>
  shows \<open>score (analyzeCode code language) = 85
    \<and> issues (analyzeCode code language) = []
    \<and> security (metrics (analyzeCode code language)) = Good
    \<and> performance (metrics (analyzeCode code language)) = Good\<close>
  using assms
  by (simp add: score_analyzeCode issues_analyzeCode metrics_analyzeCode snd_run_rules
      fst_run_rules)

text \<open>The theorem of C7 at \<open>clean_example\<close>, which has a \<open>+\<close> and no \<open>SELECT\<close>.\<close>

theorem clean_code_result_witness:
  \<open>\<not> (str_includes clean_example ''SELECT'' \<and> str_includes clean_example ''+'')
   \<and> \<not> str_includes clean_example ''eval('' \<and> \<not> str_includes clean_example ''console.log''
   \<and> score (analyzeCode clean_example ''javascript'') = 85
   \<and> issues (analyzeCode clean_example ''javascript'') = []
   \<and> security (metrics (analyzeCode clean_example ''javascript'')) = Good
   \<and> performance (metrics (analyzeCode clean_example ''javascript'')) = Good\<close>
proof -
  have h: \<open>\<not> (str_includes clean_example ''SELECT'' \<and> str_includes clean_example ''+'')\<close>
    \<open>\<not> str_includes clean_example ''eval(''\<close> \<open>\<not> str_includes clean_example ''console.log''\<close>
    by (simp_all add: clean_example_def)
  from h clean_code_result [OF h, of \<open>''javascript''\<close>] show ?thesis by simp
qed

text \<open>
  C8: for every text, complexity is High when the length of the text exceeds 500, Medium
  when it exceeds 200, and Low otherwise; maintainability is Good when the final score
  exceeds 70, Fair when it exceeds 50, and Poor otherwise; security is Poor exactly when
  some issue has type Security, and Good otherwise; performance is Good.
\<close>

theorem derived_metrics:
  \<open>complexity (metrics (analyzeCode code language)) =
     (if length code > 500 then High else if length code > 200 then Medium else Low)
   \<and> maintainability (metrics (analyzeCode code language)) =
     (if score (analyzeCode code language) > 70 then Good
      else if score (analyzeCode code language) > 50 then Fair else Poor)
   \<and> (security (metrics (analyzeCode code language)) = Poor
        \<longleftrightarrow> (\<exists>i \<in> set (issues (analyzeCode code language)). type i = ''Security''))
   \<and> security (metrics (analyzeCode code language)) =
       (if \<exists>i \<in> set (issues (analyzeCode code language)). type i = ''Security''
        then Poor else Good)
   \<and> performance (metrics (analyzeCode code language)) = Good\<close>
proof -
  let ?r = \<open>analyzeCode code language\<close>
  have sc: \<open>score ?r = snd (run_rules code)\<close>
    using snd_run_rules_bounds [of code] by (simp add: score_analyzeCode)
  have c: \<open>complexity (metrics ?r) =
      (if length code > 500 then High else if length code > 200 then Medium else Low)\<close>
    by (simp add: metrics_analyzeCode)
  have m: \<open>maintainability (metrics ?r) =
      (if score ?r > 70 then Good else if score ?r > 50 then Fair else Poor)\<close>
    unfolding sc by (simp add: metrics_analyzeCode)
  have s: \<open>security (metrics ?r) =
      (if \<exists>i \<in> set (issues ?r). type i = ''Security'' then Poor else Good)\<close>
    by (simp add: metrics_analyzeCode issues_analyzeCode filter_empty_conv)
  have p: \<open>performance (metrics ?r) = Good\<close>
    by (simp add: metrics_analyzeCode)
  from s have s1: \<open>security (metrics ?r) = Poor
      \<longleftrightarrow> (\<exists>i \<in> set (issues ?r). type i = ''Security'')\<close>
    by simp
  from c m s1 s p show ?thesis by blast
qed

text \<open>
  The theorem of C8 at \<open>sql_example\<close>: 57 code units, score 60, one issue of type
  Security.
\<close>

theorem derived_metrics_witness:
  \<open>metrics (analyzeCode sql_example ''javascript'') =
     \<lparr>complexity = Low, maintainability = Fair, security = Poor, performance = Good\<rparr>
   \<and> (\<exists>i \<in> set (issues (analyzeCode sql_example ''javascript'')). type i = ''Security'')
   \<and> length sql_example = 57
   \<and> score (analyzeCode sql_example ''javascript'') = 60\<close>
proof -
  have i: \<open>\<exists>i \<in> set (issues (analyzeCode sql_example ''javascript'')). type i = ''Security''\<close>
    by (simp add: issues_analyzeCode fst_run_rules sql_example_facts)
  have l: \<open>length sql_example = 57\<close>
    by (simp add: sql_example_def)
  have s: \<open>score (analyzeCode sql_example ''javascript'') = 60\<close>
    by (simp add: score_analyzeCode snd_run_rules sql_example_facts)
  from derived_metrics [of sql_example \<open>''javascript''\<close>] i l s
  have \<open>complexity (metrics (analyzeCode sql_example ''javascript'')) = Low\<close>
    \<open>maintainability (metrics (analyzeCode sql_example ''javascript'')) = Fair\<close>
    \<open>security (metrics (analyzeCode sql_example ''javascript'')) = Poor\<close>
    \<open>performance (metrics (analyzeCode sql_example ''javascript'')) = Good\<close>
    by simp_all
  then have \<open>metrics (analyzeCode sql_example ''javascript'') =
     \<lparr>complexity = Low, maintainability = Fair, security = Poor, performance = Good\<rparr>\<close>
    by (cases \<open>metrics (analyzeCode sql_example ''javascript'')\<close>) simp
  with i l s show ?thesis by simp
qed

text \<open>
  C9: for every text the returned score lies between 35 and 85. The three deductions
  take at most 50 from the base of 85, so the argument of the final \<open>Math.max(0, score)\<close>
  is at least 35 and the clamp returns it unchanged.
\<close>

theorem score_between_35_and_85:
  \<open>35 \<le> score (analyzeCode code language) \<and> score (analyzeCode code language) \<le> 85
   \<and> 85 - snd (run_rules code) \<le> 50
   \<and> 35 \<le> snd (run_rules code)
   \<and> max 0 (snd (run_rules code)) = snd (run_rules code)
   \<and> score (analyzeCode code language) = max 0 (snd (run_rules code))\<close>
  using snd_run_rules_bounds [of code] by (simp add: score_analyzeCode)

section \<open>The regular expression: first opening brace to last closing brace\<close>

lemma greedy_to_brace_None: \<open>greedy_to_brace cs = None \<longleftrightarrow> CHR ''}'' \<notin> set cs\<close>
  by (induction cs) (auto split: option.splits)

lemma greedy_to_brace_Some: \<open>greedy_to_brace cs = Some m \<Longrightarrow> CHR ''}'' \<in> set cs\<close>
  using greedy_to_brace_None [of cs] by auto

lemma greedy_to_brace_last:
  \<open>CHR ''}'' \<notin> set q \<Longrightarrow> greedy_to_brace (body @ CHR ''}'' # q) = Some (body @ ''}'')\<close>
proof (induction body)
  case Nil
  then have \<open>greedy_to_brace q = None\<close> by (simp add: greedy_to_brace_None)
  then show ?case by simp
next
  case (Cons c body)
  then show ?case by simp
qed

lemma match_json_skip: \<open>CHR ''{'' \<notin> set p \<Longrightarrow> match_json (p @ t) = match_json t\<close>
  by (induction p) auto

text \<open>
  When the text before the object has no opening brace and the text after it no closing
  brace, the match is the object.
\<close>

lemma match_json_object:
  assumes \<open>CHR ''{'' \<notin> set p\<close> and \<open>CHR ''}'' \<notin> set q\<close>
  shows \<open>match_json (p @ (CHR ''{'' # body @ ''}'') @ q) = Some (CHR ''{'' # body @ ''}'')\<close>
proof -
  have \<open>match_json (p @ (CHR ''{'' # body @ ''}'') @ q) =
      match_json (CHR ''{'' # body @ CHR ''}'' # q)\<close>
    using assms(1) by (simp add: match_json_skip)
  also have \<open>\<dots> = Some (CHR ''{'' # body @ ''}'')\<close>
    using assms(2) by (simp add: greedy_to_brace_last)
  finally show ?thesis .
qed

text \<open>There is no match exactly when no closing brace follows the first opening brace.\<close>

lemma match_json_None:
  \<open>match_json t = None \<longleftrightarrow> CHR ''}'' \<notin> set (dropWhile (\<lambda>c. c \<noteq> CHR ''{'') t)\<close>
proof (induction t)
  case Nil
  show ?case by simp
next
  case (Cons c t)
  show ?case
  proof (cases \<open>c = CHR ''{''\<close>)
    case True
    show ?thesis
    proof (cases \<open>greedy_to_brace t\<close>)
      case None
      then have no: \<open>CHR ''}'' \<notin> set t\<close> by (simp add: greedy_to_brace_None)
      then have \<open>CHR ''}'' \<notin> set (dropWhile (\<lambda>c. c \<noteq> CHR ''{'') t)\<close>
        by (auto dest: set_dropWhileD)
      with Cons.IH have \<open>match_json t = None\<close> by simp
      with None True no show ?thesis by simp
    next
      case (Some m)
      then have \<open>CHR ''}'' \<in> set t\<close> by (rule greedy_to_brace_Some)
      with Some True show ?thesis by simp
    qed
  next
    case False
    with Cons.IH show ?thesis by simp
  qed
qed

text \<open>A match runs from the first opening brace to the last closing brace of the text.\<close>

lemma greedy_to_brace_SomeD:
  \<open>greedy_to_brace cs = Some m \<Longrightarrow>
     \<exists>body q. cs = body @ CHR ''}'' # q \<and> CHR ''}'' \<notin> set q \<and> m = body @ ''}''\<close>
proof (induction cs arbitrary: m)
  case Nil
  then show ?case by simp
next
  case (Cons c cs)
  show ?case
  proof (cases \<open>greedy_to_brace cs\<close>)
    case None
    with Cons.prems have \<open>c = CHR ''}''\<close> and \<open>m = [c]\<close>
      by (simp_all split: if_splits)
    moreover from None have \<open>CHR ''}'' \<notin> set cs\<close>
      by (simp add: greedy_to_brace_None)
    ultimately have \<open>c # cs = [] @ CHR ''}'' # cs \<and> CHR ''}'' \<notin> set cs \<and> m = [] @ ''}''\<close>
      by simp
    then show ?thesis by blast
  next
    case (Some m')
    with Cons.prems have m: \<open>m = c # m'\<close> by simp
    from Cons.IH [OF Some] obtain body q
      where \<open>cs = body @ CHR ''}'' # q\<close> and \<open>CHR ''}'' \<notin> set q\<close> and \<open>m' = body @ ''}''\<close>
      by blast
    with m have \<open>c # cs = (c # body) @ CHR ''}'' # q \<and> CHR ''}'' \<notin> set q \<and> m = (c # body) @ ''}''\<close>
      by simp
    then show ?thesis by blast
  qed
qed

lemma match_json_SomeD:
  \<open>match_json t = Some m \<Longrightarrow>
     \<exists>p body q. t = p @ m @ q \<and> CHR ''{'' \<notin> set p \<and> CHR ''}'' \<notin> set q
       \<and> m = CHR ''{'' # body @ ''}''\<close>
proof (induction t)
  case Nil
  then show ?case by simp
next
  case (Cons c t)
  show ?case
  proof (cases \<open>match_here (c # t)\<close>)
    case (Some m')
    with Cons.prems have mm: \<open>m' = m\<close> by simp
    from Some obtain g where c: \<open>c = CHR ''{''\<close> and g: \<open>greedy_to_brace t = Some g\<close>
      and m': \<open>m' = c # g\<close>
      by (auto split: if_splits)
    from greedy_to_brace_SomeD [OF g] obtain body q
      where \<open>t = body @ CHR ''}'' # q\<close> and \<open>CHR ''}'' \<notin> set q\<close> and \<open>g = body @ ''}''\<close>
      by blast
    with c m' mm have \<open>c # t = [] @ m @ q \<and> CHR ''{'' \<notin> set [] \<and> CHR ''}'' \<notin> set q
        \<and> m = CHR ''{'' # body @ ''}''\<close>
      by simp
    then show ?thesis by blast
  next
    case None
    with Cons.prems have \<open>match_json t = Some m\<close> by simp
    from Cons.IH [OF this] obtain p body q
      where t: \<open>t = p @ m @ q\<close> and p: \<open>CHR ''{'' \<notin> set p\<close> and q: \<open>CHR ''}'' \<notin> set q\<close>
        and m: \<open>m = CHR ''{'' # body @ ''}''\<close>
      by blast
    from t m have \<open>CHR ''}'' \<in> set t\<close> by simp
    then have \<open>greedy_to_brace t \<noteq> None\<close> by (simp add: greedy_to_brace_None)
    with None have \<open>c \<noteq> CHR ''{''\<close> by (auto split: if_splits)
    with t p q m have \<open>c # t = (c # p) @ m @ q \<and> CHR ''{'' \<notin> set (c # p) \<and> CHR ''}'' \<notin> set q
        \<and> m = CHR ''{'' # body @ ''}''\<close>
      by simp
    then show ?thesis by blast
  qed
qed

section \<open>The handler: how a run ends\<close>

lemma POST_fetched:
  assumes \<open>before_fetch P request = Inr (Inr (url, prompt))\<close>
    and \<open>fetch P url prompt = Some response\<close>
  shows \<open>POST P request =
    \<lparr>returned = (case after_fetch P response of
                   Inl e \<Rightarrow> error_response ''Internal server error'' 500
                 | Inr r \<Rightarrow> r),
     fetch_calls = [(url, prompt)]\<rparr>\<close>
  using assms by (simp add: POST_def try_block_def split: sum.split)

lemma POST_early:
  assumes \<open>before_fetch P request = Inr (Inl early)\<close>
  shows \<open>POST P request = \<lparr>returned = early, fetch_calls = []\<rparr>\<close>
  using assms by (simp add: POST_def try_block_def)

lemma POST_thrown_before:
  assumes \<open>before_fetch P request = Inl e\<close>
  shows \<open>POST P request =
    \<lparr>returned = error_response ''Internal server error'' 500, fetch_calls = []\<rparr>\<close>
  using assms by (simp add: POST_def try_block_def)

lemma after_fetch_text:
  assumes \<open>read_reply P response = Inr (Inr text)\<close>
  shows \<open>after_fetch P response = parse_analysis P text\<close>
  using assms by (simp add: after_fetch_def)

lemma falsy_code_rejected:
  assumes \<open>JSON_parse P (request_body request) = Some v\<close> and \<open>v \<noteq> JNull\<close>
    and \<open>\<not> truthy P (get_prop v ''code'')\<close>
  shows \<open>POST P request =
    \<lparr>returned = error_response ''Code is required'' 400, fetch_calls = []\<rparr>\<close>
proof -
  have \<open>before_fetch P request = Inr (Inl (error_response ''Code is required'' 400))\<close>
    using assms by (cases v) (simp_all add: before_fetch_def)
  then show ?thesis by (rule POST_early)
qed

lemma candidate_text_gemini_reply: \<open>candidate_text (gemini_reply t) = Inr (Some (JStr t))\<close>
  by (simp add: candidate_text_def gemini_reply_def optional_def)

text \<open>The runs of the concrete platforms, stage by stage.\<close>

lemma string_code_before_fetch:
  assumes \<open>JSON_parse P (request_body request) = Some (JObj [(''code'', JStr c)])\<close>
    and \<open>c \<noteq> []\<close> and \<open>GEMINI_API_KEY P = Some key\<close> and \<open>key \<noteq> []\<close>
  shows \<open>before_fetch P request = Inr (Inr (gemini_url key, prompt_text ''javascript'' c))\<close>
  using assms by (simp add: before_fetch_def or_else_def interpolate_def)

lemma demo_read_reply:
  assumes \<open>map_of table body = Some (gemini_reply t)\<close> and \<open>t \<noteq> []\<close>
  shows \<open>read_reply (demo_platform table reply) \<lparr>ok = True, response_body = body\<rparr> =
    Inr (Inr (Some (JStr t)))\<close>
  using assms by (simp add: read_reply_def demo_platform_def candidate_text_gemini_reply)

section \<open>The handler: the claims\<close>

text \<open>
  C1 as stated fails: a \<open>code\<close> of whitespace only is truthy, so \<open>!code\<close> does not
  reject it. For the request body \<open>{"code":" "}\<close> the handler calls the endpoint once
  and, the endpoint replying \<open>{}\<close>, answers 200.
\<close>

theorem whitespace_code_is_fetched:
  \<open>JSON_parse blank_code_platform (request_body blank_code_request) =
     Some (JObj [(''code'', JStr '' '')])
   \<and> returned (POST blank_code_platform blank_code_request) = NextResponse_json (JObj []) 200
   \<and> status (returned (POST blank_code_platform blank_code_request)) \<noteq> 400
   \<and> fetch_calls (POST blank_code_platform blank_code_request) =
       [(gemini_url ''test-key'', prompt_text ''javascript'' '' '')]\<close>
proof -
  have p: \<open>JSON_parse blank_code_platform (request_body blank_code_request) =
      Some (JObj [(''code'', JStr '' '')])\<close>
    by (simp add: blank_code_platform_def blank_code_request_def demo_platform_def)
  have b: \<open>before_fetch blank_code_platform blank_code_request =
      Inr (Inr (gemini_url ''test-key'', prompt_text ''javascript'' '' ''))\<close>
    by (rule string_code_before_fetch [OF p]) (simp_all add: blank_code_platform_def demo_platform_def)
  have f: \<open>fetch blank_code_platform (gemini_url ''test-key'') (prompt_text ''javascript'' '' '') =
      Some \<lparr>ok = True, response_body = gemini_body ''{}''\<rparr>\<close>
    by (simp add: blank_code_platform_def demo_platform_def)
  have r: \<open>read_reply blank_code_platform \<lparr>ok = True, response_body = gemini_body ''{}''\<rparr> =
      Inr (Inr (Some (JStr ''{}'')))\<close>
    unfolding blank_code_platform_def by (rule demo_read_reply) (simp_all add: gemini_body_def)
  have a: \<open>after_fetch blank_code_platform \<lparr>ok = True, response_body = gemini_body ''{}''\<rparr> =
      Inr (NextResponse_json (JObj []) 200)\<close>
    unfolding after_fetch_text [OF r]
    by (simp add: parse_analysis_def blank_code_platform_def demo_platform_def gemini_body_def)
  from POST_fetched [OF b f] a p show ?thesis by (simp add: NextResponse_json_def)
qed

text \<open>
  C1, amended: for every request whose \<open>code\<close> field is the empty string, the handler
  returns the 400 response \<open>{ error: 'Code is required' }\<close> and makes no call to the
  external endpoint.
\<close>

theorem empty_code_rejected_before_fetch:
  assumes \<open>JSON_parse P (request_body request) = Some (JObj kvs)\<close>
    and \<open>map_of kvs ''code'' = Some (JStr [])\<close>
  shows \<open>POST P request =
    \<lparr>returned = error_response ''Code is required'' 400, fetch_calls = []\<rparr>\<close>
proof -
  have \<open>get_prop (JObj kvs) ''code'' = Some (JStr [])\<close>
    using assms(2) by simp
  then have falsy: \<open>\<not> truthy P (get_prop (JObj kvs) ''code'')\<close>
    by simp
  have \<open>before_fetch P request = Inr (Inl (error_response ''Code is required'' 400))\<close>
    using assms(1) falsy by (simp add: before_fetch_def)
  then have \<open>try_block P request = (Inr (error_response ''Code is required'' 400), [])\<close>
    by (simp add: try_block_def)
  then show ?thesis
    by (simp add: POST_def)
qed

text \<open>The theorem of C1 at the request body \<open>{"code":""}\<close>.\<close>

theorem empty_code_rejected_before_fetch_witness:
  \<open>JSON_parse empty_code_platform (request_body empty_code_request) =
     Some (JObj [(''code'', JStr [])])
   \<and> map_of [(''code'', JStr [])] ''code'' = Some (JStr [] :: int json)
   \<and> status (returned (POST empty_code_platform empty_code_request)) = 400
   \<and> json_body (returned (POST empty_code_platform empty_code_request)) =
       JObj [(''error'', JStr ''Code is required'')]
   \<and> fetch_calls (POST empty_code_platform empty_code_request) = []\<close>
proof -
  have p: \<open>JSON_parse empty_code_platform (request_body empty_code_request) =
      Some (JObj [(''code'', JStr [])])\<close>
    by (simp add: empty_code_platform_def empty_code_request_def demo_platform_def)
  have m: \<open>map_of [(''code'', JStr [])] ''code'' = Some (JStr [] :: int json)\<close>
    by simp
  from p m empty_code_rejected_before_fetch [OF p m] show ?thesis
    by (simp add: error_response_def NextResponse_json_def)
qed

text \<open>
  C10: for every request whose body is not valid JSON, \<open>request.json()\<close> throws inside
  the \<open>try\<close> block, and the handler returns the 500 response
  \<open>{ error: 'Internal server error' }\<close>, not the 400 one; no exception reaches the
  caller, and no call is made to the endpoint.
\<close>

theorem malformed_body_is_500:
  assumes \<open>JSON_parse P (request_body request) = None\<close>
  shows \<open>POST P request =
    \<lparr>returned = error_response ''Internal server error'' 500, fetch_calls = []\<rparr>
    \<and> status (returned (POST P request)) = 500
    \<and> json_body (returned (POST P request)) = JObj [(''error'', JStr ''Internal server error'')]\<close>
proof -
  have \<open>before_fetch P request = Inl SyntaxError\<close>
    using assms by (simp add: before_fetch_def)
  then have \<open>POST P request =
    \<lparr>returned = error_response ''Internal server error'' 500, fetch_calls = []\<rparr>\<close>
    by (rule POST_thrown_before)
  then show ?thesis by (simp add: error_response_def NextResponse_json_def)
qed

text \<open>The theorem of C10 at a body that is cut off.\<close>

theorem malformed_body_is_500_witness:
  \<open>JSON_parse broken_platform (request_body broken_request) = None
   \<and> status (returned (POST broken_platform broken_request)) = 500
   \<and> json_body (returned (POST broken_platform broken_request)) =
       JObj [(''error'', JStr ''Internal server error'')]
   \<and> fetch_calls (POST broken_platform broken_request) = []\<close>
proof -
  have p: \<open>JSON_parse broken_platform (request_body broken_request) = None\<close>
    by (simp add: broken_platform_def demo_platform_def)
  from p malformed_body_is_500 [OF p] show ?thesis
    by (simp add: error_response_def NextResponse_json_def)
qed


text \<open>
  A run that reads a string \<open>text\<close> from the reply: one call of \<open>fetch\<close>, one match, one
  parse.
\<close>

lemma POST_reply_text:
  assumes \<open>before_fetch P request = Inr (Inr (url, prompt))\<close>
    and \<open>fetch P url prompt = Some response\<close>
    and \<open>read_reply P response = Inr (Inr (Some (JStr text)))\<close>
  shows \<open>POST P request =
    \<lparr>returned =
       (case match_json text of
          None \<Rightarrow> error_response ''Invalid analysis format'' 500
        | Some matched \<Rightarrow>
            (case JSON_parse P matched of
               None \<Rightarrow> error_response ''Internal server error'' 500
             | Some analysisResult \<Rightarrow> NextResponse_json analysisResult 200)),
     fetch_calls = [(url, prompt)]\<rparr>\<close>
  unfolding POST_fetched [OF assms(1,2)] after_fetch_text [OF assms(3)]
  by (simp add: parse_analysis_def split: option.split)

lemma oops_run:
  \<open>before_fetch oops_platform x_request =
     Inr (Inr (gemini_url ''test-key'', prompt_text ''javascript'' ''x''))\<close>
  \<open>fetch oops_platform (gemini_url ''test-key'') (prompt_text ''javascript'' ''x'') =
     Some \<lparr>ok = True, response_body = gemini_body ''{oops}''\<rparr>\<close>
  \<open>read_reply oops_platform \<lparr>ok = True, response_body = gemini_body ''{oops}''\<rparr> =
     Inr (Inr (Some (JStr ''{oops}'')))\<close>
  \<open>match_json ''{oops}'' = Some ''{oops}''\<close>
  \<open>JSON_parse oops_platform ''{oops}'' = None\<close>
proof -
  show \<open>before_fetch oops_platform x_request =
     Inr (Inr (gemini_url ''test-key'', prompt_text ''javascript'' ''x''))\<close>
    by (rule string_code_before_fetch)
       (simp_all add: oops_platform_def demo_platform_def x_request_def)
  show \<open>fetch oops_platform (gemini_url ''test-key'') (prompt_text ''javascript'' ''x'') =
     Some \<lparr>ok = True, response_body = gemini_body ''{oops}''\<rparr>\<close>
    by (simp add: oops_platform_def demo_platform_def)
  show \<open>read_reply oops_platform \<lparr>ok = True, response_body = gemini_body ''{oops}''\<rparr> =
     Inr (Inr (Some (JStr ''{oops}'')))\<close>
    unfolding oops_platform_def by (rule demo_read_reply) (simp_all add: gemini_body_def)
  show \<open>match_json ''{oops}'' = Some ''{oops}''\<close>
    by simp
  show \<open>JSON_parse oops_platform ''{oops}'' = None\<close>
    by (simp add: oops_platform_def demo_platform_def gemini_body_def)
qed

lemma no_fields_run:
  \<open>before_fetch no_fields_platform x_request =
     Inr (Inr (gemini_url ''test-key'', prompt_text ''javascript'' ''x''))\<close>
  \<open>fetch no_fields_platform (gemini_url ''test-key'') (prompt_text ''javascript'' ''x'') =
     Some \<lparr>ok = True, response_body = gemini_body ''{}''\<rparr>\<close>
  \<open>read_reply no_fields_platform \<lparr>ok = True, response_body = gemini_body ''{}''\<rparr> =
     Inr (Inr (Some (JStr ''{}'')))\<close>
  \<open>match_json ''{}'' = Some ''{}''\<close>
  \<open>JSON_parse no_fields_platform ''{}'' = Some (JObj [])\<close>
proof -
  show \<open>before_fetch no_fields_platform x_request =
     Inr (Inr (gemini_url ''test-key'', prompt_text ''javascript'' ''x''))\<close>
    by (rule string_code_before_fetch)
       (simp_all add: no_fields_platform_def demo_platform_def x_request_def)
  show \<open>fetch no_fields_platform (gemini_url ''test-key'') (prompt_text ''javascript'' ''x'') =
     Some \<lparr>ok = True, response_body = gemini_body ''{}''\<rparr>\<close>
    by (simp add: no_fields_platform_def demo_platform_def)
  show \<open>read_reply no_fields_platform \<lparr>ok = True, response_body = gemini_body ''{}''\<rparr> =
     Inr (Inr (Some (JStr ''{}'')))\<close>
    unfolding no_fields_platform_def by (rule demo_read_reply) (simp_all add: gemini_body_def)
  show \<open>match_json ''{}'' = Some ''{}''\<close>
    by simp
  show \<open>JSON_parse no_fields_platform ''{}'' = Some (JObj [])\<close>
    by (simp add: no_fields_platform_def demo_platform_def gemini_body_def)
qed

text \<open>
  C2 as stated fails. The reply text \<open>{oops}\<close> has a span that is not JSON: the handler
  answers \<open>Internal server error\<close>, not \<open>Invalid analysis format\<close>. The reply text
  \<open>{}\<close> parses and has none of the fields: the handler answers 200 with it.
\<close>

theorem unparsable_span_not_invalid_format:
  \<open>match_json ''{oops}'' = Some ''{oops}''
   \<and> JSON_parse oops_platform ''{oops}'' = None
   \<and> returned (POST oops_platform x_request) = error_response ''Internal server error'' 500
   \<and> returned (POST oops_platform x_request) \<noteq> error_response ''Invalid analysis format'' 500
   \<and> JSON_parse no_fields_platform ''{}'' = Some (JObj [])
   \<and> returned (POST no_fields_platform x_request) = NextResponse_json (JObj []) 200\<close>
  using oops_run(4,5) no_fields_run(5)
  by (simp add: POST_reply_text [OF oops_run(1,2,3)] POST_reply_text [OF no_fields_run(1,2,3)]
      error_response_def NextResponse_json_def)

text \<open>
  C2, amended: for every upstream reply whose text the handler reads, exactly one call
  is made to the endpoint, with no repair and no second prompt, and the response is
  \<^item> 500 with \<open>Invalid analysis format\<close> when the text has no brace-delimited span,
  \<^item> 500 with \<open>Internal server error\<close> when the span is not valid JSON,
  \<^item> \<open>NextResponse.json\<close> of the parsed value, with status 200, when the span is valid
    JSON: the handler hands the value over as parsed, whatever fields it has, and
    checks or changes nothing in it.
\<close>

theorem reply_parsed_once:
  assumes \<open>before_fetch P request = Inr (Inr (url, prompt))\<close>
    and \<open>fetch P url prompt = Some response\<close>
    and \<open>read_reply P response = Inr (Inr (Some (JStr text)))\<close>
  shows \<open>fetch_calls (POST P request) = [(url, prompt)]
    \<and> returned (POST P request) =
       (case match_json text of
          None \<Rightarrow> error_response ''Invalid analysis format'' 500
        | Some matched \<Rightarrow>
            (case JSON_parse P matched of
               None \<Rightarrow> error_response ''Internal server error'' 500
             | Some analysisResult \<Rightarrow> NextResponse_json analysisResult 200))\<close>
proof -
  have t: \<open>try_block P request = (after_fetch P response, [(url, prompt)])\<close>
    using assms(1,2) by (simp add: try_block_def)
  have a: \<open>after_fetch P response = parse_analysis P (Some (JStr text))\<close>
    using assms(3) by (simp add: after_fetch_def)
  have calls: \<open>fetch_calls (POST P request) = [(url, prompt)]\<close>
    by (simp add: POST_def t split: sum.split)
  have answer: \<open>returned (POST P request) =
      (case parse_analysis P (Some (JStr text)) of
         Inl e \<Rightarrow> error_response ''Internal server error'' 500
       | Inr r \<Rightarrow> r)\<close>
    by (simp add: POST_def t a split: sum.split)
  show ?thesis
  proof (cases \<open>match_json text\<close>)
    case None
    then have \<open>parse_analysis P (Some (JStr text)) =
        Inr (error_response ''Invalid analysis format'' 500)\<close>
      by (simp add: parse_analysis_def)
    with calls answer None show ?thesis by simp
  next
    case (Some matched)
    show ?thesis
    proof (cases \<open>JSON_parse P matched\<close>)
      case None
      with Some have \<open>parse_analysis P (Some (JStr text)) = Inl SyntaxError\<close>
        by (simp add: parse_analysis_def)
      with calls answer Some None show ?thesis by simp
    next
      case (Some analysisResult)
      with \<open>match_json text = Some matched\<close>
      have \<open>parse_analysis P (Some (JStr text)) = Inr (NextResponse_json analysisResult 200)\<close>
        by (simp add: parse_analysis_def)
      with calls answer \<open>match_json text = Some matched\<close> Some show ?thesis by simp
    qed
  qed
qed

text \<open>The theorem of C2 at the reply text \<open>{oops}\<close>.\<close>

theorem reply_parsed_once_witness:
  \<open>before_fetch oops_platform x_request =
     Inr (Inr (gemini_url ''test-key'', prompt_text ''javascript'' ''x''))
   \<and> fetch oops_platform (gemini_url ''test-key'') (prompt_text ''javascript'' ''x'') =
     Some \<lparr>ok = True, response_body = gemini_body ''{oops}''\<rparr>
   \<and> read_reply oops_platform \<lparr>ok = True, response_body = gemini_body ''{oops}''\<rparr> =
     Inr (Inr (Some (JStr ''{oops}'')))
   \<and> fetch_calls (POST oops_platform x_request) =
     [(gemini_url ''test-key'', prompt_text ''javascript'' ''x'')]
   \<and> status (returned (POST oops_platform x_request)) = 500
   \<and> json_body (returned (POST oops_platform x_request)) =
     JObj [(''error'', JStr ''Internal server error'')]\<close>
  using oops_run reply_parsed_once [OF oops_run(1,2,3)]
  by (simp add: error_response_def NextResponse_json_def)

lemma audit_run:
  \<open>before_fetch audit_platform x_request =
     Inr (Inr (gemini_url ''test-key'', prompt_text ''javascript'' ''x''))\<close>
  \<open>fetch audit_platform (gemini_url ''test-key'') (prompt_text ''javascript'' ''x'') =
     Some \<lparr>ok = True, response_body = gemini_body audit_text_escaped\<rparr>\<close>
  \<open>read_reply audit_platform \<lparr>ok = True, response_body = gemini_body audit_text_escaped\<rparr> =
     Inr (Inr (Some (JStr (''Audit: '' @ ''{"score":75}'' @ '' Done.''))))\<close>
  \<open>''{"score":75}'' = CHR ''{'' # ''"score":75'' @ ''}''\<close>
  \<open>JSON_parse audit_platform ''{"score":75}'' = Some (JObj [(''score'', JNum 75)])\<close>
  \<open>CHR ''{'' \<notin> set ''Audit: ''\<close>
  \<open>CHR ''}'' \<notin> set '' Done.''\<close>
proof -
  show \<open>before_fetch audit_platform x_request =
     Inr (Inr (gemini_url ''test-key'', prompt_text ''javascript'' ''x''))\<close>
    by (rule string_code_before_fetch)
       (simp_all add: audit_platform_def demo_platform_def x_request_def)
  show \<open>fetch audit_platform (gemini_url ''test-key'') (prompt_text ''javascript'' ''x'') =
     Some \<lparr>ok = True, response_body = gemini_body audit_text_escaped\<rparr>\<close>
    by (simp add: audit_platform_def demo_platform_def)
  have \<open>read_reply audit_platform \<lparr>ok = True, response_body = gemini_body audit_text_escaped\<rparr> =
     Inr (Inr (Some (JStr audit_text)))\<close>
    unfolding audit_platform_def
    by (rule demo_read_reply) (simp_all add: gemini_body_def audit_text_def audit_text_escaped_def)
  then show \<open>read_reply audit_platform
       \<lparr>ok = True, response_body = gemini_body audit_text_escaped\<rparr> =
     Inr (Inr (Some (JStr (''Audit: '' @ ''{"score":75}'' @ '' Done.''))))\<close>
    by (simp add: audit_text_def)
  show \<open>''{"score":75}'' = CHR ''{'' # ''"score":75'' @ ''}''\<close>
    by simp
  show \<open>JSON_parse audit_platform ''{"score":75}'' = Some (JObj [(''score'', JNum 75)])\<close>
    by (simp add: audit_platform_def demo_platform_def gemini_body_def audit_text_escaped_def)
  show \<open>CHR ''{'' \<notin> set ''Audit: ''\<close> and \<open>CHR ''}'' \<notin> set '' Done.''\<close>
    by simp_all
qed

text \<open>
  C4: when the text of the upstream reply is a serialization of a JSON value \<open>j\<close> (a
  text in braces that \<open>JSON.parse\<close> reads as \<open>j\<close>) between a prose prefix without an
  opening brace and a prose suffix without a closing brace, the span from the first
  \<open>{\<close> to the last \<open>}\<close> is that serialization and the handler returns \<open>j\<close> unchanged.
\<close>

theorem extraction_round_trip:
  assumes \<open>before_fetch P request = Inr (Inr (url, prompt))\<close>
    and \<open>fetch P url prompt = Some response\<close>
    and \<open>read_reply P response =
           Inr (Inr (Some (JStr (prose_before @ serialized @ prose_after))))\<close>
    and \<open>serialized = CHR ''{'' # members @ ''}''\<close>
    and \<open>JSON_parse P serialized = Some j\<close>
    and \<open>CHR ''{'' \<notin> set prose_before\<close> and \<open>CHR ''}'' \<notin> set prose_after\<close>
  shows \<open>match_json (prose_before @ serialized @ prose_after) = Some serialized
    \<and> POST P request =
        \<lparr>returned = NextResponse_json j 200, fetch_calls = [(url, prompt)]\<rparr>\<close>
proof -
  have m: \<open>match_json (prose_before @ serialized @ prose_after) = Some serialized\<close>
    unfolding assms(4) using assms(6,7) by (rule match_json_object)
  show ?thesis
    by (simp add: POST_reply_text [OF assms(1,2,3)] m assms(5))
qed

text \<open>The theorem of C4 at the reply text \<open>Audit: {"score":75} Done.\<close>\<close>

theorem extraction_round_trip_witness:
  \<open>before_fetch audit_platform x_request =
     Inr (Inr (gemini_url ''test-key'', prompt_text ''javascript'' ''x''))
   \<and> fetch audit_platform (gemini_url ''test-key'') (prompt_text ''javascript'' ''x'') =
     Some \<lparr>ok = True, response_body = gemini_body audit_text_escaped\<rparr>
   \<and> read_reply audit_platform \<lparr>ok = True, response_body = gemini_body audit_text_escaped\<rparr> =
     Inr (Inr (Some (JStr (''Audit: '' @ ''{"score":75}'' @ '' Done.''))))
   \<and> JSON_parse audit_platform ''{"score":75}'' = Some (JObj [(''score'', JNum 75)])
   \<and> match_json (''Audit: '' @ ''{"score":75}'' @ '' Done.'') = Some ''{"score":75}''
   \<and> POST audit_platform x_request =
       \<lparr>returned = NextResponse_json (JObj [(''score'', JNum 75)]) 200,
        fetch_calls = [(gemini_url ''test-key'', prompt_text ''javascript'' ''x'')]\<rparr>\<close>
  using audit_run(1,2,3,5) extraction_round_trip [OF audit_run]
  by simp

end
